theory Spec2Isabelle
  imports Complex_Main "HOL-Library.AList"
begin

section \<open>Python values shared by the modules\<close>

text \<open>
  Strings are byte strings. A Python \<^verbatim>\<open>dict\<close> is an association list in insertion order
  (\<open>map_of\<close> reads it, \<open>AList.update\<close> is item assignment, \<open>AList.delete\<close> removes a key).
  JSON documents, as \<^verbatim>\<open>response.json()\<close> returns them and as \<^verbatim>\<open>json=payload\<close> sends them,
  are the datatype \<open>json\<close>; numbers are kept as exact rationals.
\<close>

datatype json =
    JNull
  | JBool bool
  | JNum rat
  | JStr string
  | JArr "json list"
  | JObj "(string \<times> json) list"

definition ascii_upper :: string where
  "ascii_upper = ''ABCDEFGHIJKLMNOPQRSTUVWXYZ''"

definition ascii_lower :: string where
  "ascii_lower = ''abcdefghijklmnopqrstuvwxyz''"

definition lower_char :: "char \<Rightarrow> char" where
  "lower_char c = (case map_of (zip ascii_upper ascii_lower) c of Some d \<Rightarrow> d | None \<Rightarrow> c)"

text \<open>\<^verbatim>\<open>str.lower()\<close> on ASCII text.\<close>

definition lower :: "string \<Rightarrow> string" where
  "lower s = map lower_char s"

section \<open>lib/airtable.py: the rate-limited client\<close>

record http_response =
  status_code :: int
  json_body :: "json option"

text \<open>
  \<open>json_body = None\<close> is a body that is not JSON: \<^verbatim>\<open>response.json()\<close> raises.
  A request carries the URL, the \<^verbatim>\<open>offset\<close> query parameter of
  \<^verbatim>\<open>f"{table_url}?offset={offset}"\<close> (kept as the value that is formatted), the headers
  passed to \<^verbatim>\<open>session.request\<close> and the \<^verbatim>\<open>json=\<close> payload.
\<close>

record http_request =
  http_method :: string
  url :: string
  query_offset :: "json option"
  headers :: "(string \<times> string) list"
  json_payload :: "json option"

datatype error =
    HTTPError http_response
  | AirtableIteratorError
  | TypeError
  | AttributeError
  | KeyError string
  | ValueError
  | ZeroDivisionError
  | JSONDecodeError
  | ProgrammingError

text \<open>What the program does to the outside world, in order.\<close>

datatype event =
    Sent http_request
  | Sleep rat
  | Warn429 nat int
  | WarnRestart nat

record client =
  base_id :: string
  api_key :: string
  write_chunk_size :: int
  requests_per_second_limit :: rat

text \<open>The defaults of \<^verbatim>\<open>AirtableClient.__init__\<close>.\<close>

definition AirtableClient :: "string \<Rightarrow> string \<Rightarrow> client" where
  "AirtableClient b k =
     \<lparr>base_id = b, api_key = k, write_chunk_size = 10, requests_per_second_limit = 5\<rparr>"

record kwargs =
  kw_headers :: "(string \<times> string) list option"
  kw_json :: "json option"
  kw_offset :: "json option"

definition no_kwargs :: kwargs where
  "no_kwargs = \<lparr>kw_headers = None, kw_json = None, kw_offset = None\<rparr>"

text \<open>\<^verbatim>\<open>d.update(e)\<close>.\<close>

definition dict_update :: "('k \<times> 'v) list \<Rightarrow> ('k \<times> 'v) list \<Rightarrow> ('k \<times> 'v) list" where
  "dict_update d e = fold (\<lambda>(k, v) acc. AList.update k v acc) e d"

text \<open>
  Lines 40-45 of \<^verbatim>\<open>request\<close>: the headers of the call, and the request that every iteration
  of the retry loop sends.
\<close>

definition request_headers :: "string \<Rightarrow> kwargs \<Rightarrow> (string \<times> string) list" where
  "request_headers method kw =
     dict_update
       (if lower method \<in> set [''put'', ''post'', ''patch'']
        then [(''Content-Type'', ''application/json'')] else [])
       (case kw_headers kw of None \<Rightarrow> [] | Some h \<Rightarrow> h)"

definition build_request :: "string \<Rightarrow> string \<Rightarrow> kwargs \<Rightarrow> http_request" where
  "build_request method u kw =
     \<lparr>http_method = method, url = u, query_offset = kw_offset kw,
      headers = request_headers method kw, json_payload = kw_json kw\<rparr>"

text \<open>\<^verbatim>\<open>math.ceil(wait * 1.5)\<close>; 1.5 is exactly 3/2.\<close>

definition next_wait :: "int \<Rightarrow> int" where
  "next_wait wait = \<lceil>of_int wait * (3 / 2 :: rat)\<rceil>"

text \<open>
  The server is a transition function on its own state. The \<^verbatim>\<open>while True\<close> loop of
  \<^verbatim>\<open>request\<close> (lines 50-61), with the trace of events so far; \<open>None\<close> is a loop that
  never leaves.
\<close>

partial_function (option) request_loop ::
  "('s \<Rightarrow> http_request \<Rightarrow> http_response \<times> 's) \<Rightarrow> http_request \<Rightarrow> nat \<Rightarrow> int \<Rightarrow> 's \<Rightarrow>
     event list \<Rightarrow> (http_response \<times> 's \<times> event list) option"
where
  "request_loop srv rq retries wait s tr =
     (case srv s rq of (response, s') \<Rightarrow>
        if status_code response \<noteq> 429 \<or> retries = 3
        then Some (response, s', tr @ [Sent rq])
        else request_loop srv rq (retries + 1) (next_wait wait) s'
               (tr @ [Sent rq, Warn429 (retries + 1) wait, Sleep (of_int wait)]))"

text \<open>\<^verbatim>\<open>response.raise_for_status()\<close> of the requests library.\<close>

definition raises_for_status :: "http_response \<Rightarrow> bool" where
  "raises_for_status r \<longleftrightarrow> 400 \<le> status_code r \<and> status_code r < 600"

text \<open>
  \<^verbatim>\<open>request\<close>: the result, the server's new state and the events of this call.
  \<^verbatim>\<open>1 / 0\<close> raises ZeroDivisionError and \<^verbatim>\<open>time.sleep\<close> of a negative number ValueError.
\<close>

definition request ::
  "client \<Rightarrow> ('s \<Rightarrow> http_request \<Rightarrow> http_response \<times> 's) \<Rightarrow> string \<Rightarrow> string \<Rightarrow> kwargs \<Rightarrow> 's \<Rightarrow>
     ((error + http_response) \<times> 's \<times> event list) option"
where
  "request c srv method u kw s =
     (case request_loop srv (build_request method u kw) 0 30 s [] of
        None \<Rightarrow> None
      | Some (response, s', tr) \<Rightarrow>
          if raises_for_status response then Some (Inl (HTTPError response), s', tr)
          else if requests_per_second_limit c = 0 then Some (Inl ZeroDivisionError, s', tr)
          else if 1 / requests_per_second_limit c < 0 then Some (Inl ValueError, s', tr)
          else Some (Inr response, s', tr @ [Sleep (1 / requests_per_second_limit c)]))"

text \<open>The server's state after it has answered the same request \<open>n\<close> times.\<close>

fun srv_after ::
  "('s \<Rightarrow> http_request \<Rightarrow> http_response \<times> 's) \<Rightarrow> http_request \<Rightarrow> nat \<Rightarrow> 's \<Rightarrow> 's"
where
  "srv_after srv rq 0 s = s"
| "srv_after srv rq (Suc n) s = srv_after srv rq n (snd (srv s rq))"

text \<open>A server that answers every request with the same status and no body.\<close>

definition const_server :: "int \<Rightarrow> unit \<Rightarrow> http_request \<Rightarrow> http_response \<times> unit" where
  "const_server code s rq = (\<lparr>status_code = code, json_body = None\<rparr>, ())"

section \<open>lib/airtable.py: paginated reading\<close>

text \<open>\<^verbatim>\<open>urllib.parse.quote\<close> with its default \<^verbatim>\<open>safe='/'\<close>, on the bytes of the string.\<close>

definition quote_safe :: string where
  "quote_safe = ascii_upper @ ascii_lower @ ''0123456789_.-~/''"

definition hex_digit :: "nat \<Rightarrow> char" where
  "hex_digit n = ''0123456789ABCDEF'' ! (n mod 16)"

definition quote_char :: "char \<Rightarrow> string" where
  "quote_char c =
     (if c \<in> set quote_safe then [c]
      else [CHR ''%'', hex_digit (of_char c div 16), hex_digit (of_char c)])"

definition quote :: "string \<Rightarrow> string" where
  "quote s = concat (map quote_char s)"

definition table_url :: "client \<Rightarrow> string \<Rightarrow> string" where
  "table_url c table_name = ''https://api.airtable.com/v0/'' @ base_id c @ ''/'' @ quote table_name"

text \<open>Python truth value of a parsed JSON value (\<^verbatim>\<open>if offset\<close>).\<close>

fun truthy :: "json \<Rightarrow> bool" where
  "truthy JNull = False"
| "truthy (JBool b) = b"
| "truthy (JNum q) = (q \<noteq> 0)"
| "truthy (JStr s) = (s \<noteq> [])"
| "truthy (JArr xs) = (xs \<noteq> [])"
| "truthy (JObj kvs) = (kvs \<noteq> [])"

fun starts_with :: "string \<Rightarrow> string \<Rightarrow> bool" where
  "starts_with s [] = True"
| "starts_with [] (p # ps) = False"
| "starts_with (c # cs) (p # ps) = (c = p \<and> starts_with cs ps)"

text \<open>\<^verbatim>\<open>needle in s\<close> for two strings.\<close>

fun str_contains :: "string \<Rightarrow> string \<Rightarrow> bool" where
  "str_contains [] needle = (needle = [])"
| "str_contains (c # cs) needle = (starts_with (c # cs) needle \<or> str_contains cs needle)"

text \<open>
  \<^verbatim>\<open>needle in v\<close> for a string and a parsed JSON value: substring of a string, element of a
  list, key of a dict; \<^verbatim>\<open>None\<close>, booleans and numbers are not iterable.
\<close>

fun py_in :: "string \<Rightarrow> json \<Rightarrow> error + bool" where
  "py_in needle (JStr s) = Inr (str_contains s needle)"
| "py_in needle (JArr xs) = Inr (JStr needle \<in> set xs)"
| "py_in needle (JObj kvs) = Inr (needle \<in> set (map fst kvs))"
| "py_in needle JNull = Inl TypeError"
| "py_in needle (JBool b) = Inl TypeError"
| "py_in needle (JNum q) = Inl TypeError"

text \<open>\<^verbatim>\<open>data.get(key, default)\<close>: only a dict has \<^verbatim>\<open>get\<close>.\<close>

fun json_get :: "json \<Rightarrow> string \<Rightarrow> json \<Rightarrow> error + json" where
  "json_get (JObj kvs) k d = Inr (case map_of kvs k of None \<Rightarrow> d | Some v \<Rightarrow> v)"
| "json_get other k d = Inl AttributeError"

text \<open>
  \<^verbatim>\<open>is_iterator_error(exc)\<close>, on the response of the \<^verbatim>\<open>HTTPError\<close>. The \<^verbatim>\<open>try\<close> covers
  only \<^verbatim>\<open>exc.response.json()\<close>; the test runs in its \<^verbatim>\<open>else\<close> clause.
\<close>

definition is_iterator_error :: "http_response \<Rightarrow> error + bool" where
  "is_iterator_error response =
     (if status_code response = 422 then
        (case json_body response of
           None \<Rightarrow> Inr False
         | Some data \<Rightarrow>
             (case json_get data ''error'' (JStr '''') of
                Inl e \<Rightarrow> Inl e
              | Inr v \<Rightarrow>
                  (case py_in ''LIST_RECORDS_ITERATOR_NOT_AVAILABLE'' v of
                     Inl e \<Rightarrow> Inl e
                   | Inr True \<Rightarrow> Inr True
                   | Inr False \<Rightarrow> Inr False)))
      else Inr False)"

text \<open>
  One iteration of the \<^verbatim>\<open>while True\<close> loop of \<^verbatim>\<open>iter_chunks\<close> (lines 94-107): it raises,
  or it yields a chunk and leaves the next \<^verbatim>\<open>offset\<close> (\<open>None\<close> when the loop breaks).
\<close>

datatype step_result =
    Raised error
  | Yielded json "json option"

definition offset_kwargs :: "json option \<Rightarrow> kwargs" where
  "offset_kwargs offset =
     (case offset of
        None \<Rightarrow> no_kwargs
      | Some v \<Rightarrow> if truthy v then no_kwargs\<lparr>kw_offset := Some v\<rparr> else no_kwargs)"

definition handle_response :: "error + http_response \<Rightarrow> step_result" where
  "handle_response res =
     (case res of
        Inl (HTTPError response) \<Rightarrow>
          (case is_iterator_error response of
             Inl e \<Rightarrow> Raised e
           | Inr True \<Rightarrow> Raised AirtableIteratorError
           | Inr False \<Rightarrow> Raised (HTTPError response))
      | Inl e \<Rightarrow> Raised e
      | Inr response \<Rightarrow>
          (case json_body response of
             None \<Rightarrow> Raised JSONDecodeError
           | Some data \<Rightarrow>
               (case json_get data ''records'' (JArr []) of
                  Inl e \<Rightarrow> Raised e
                | Inr records \<Rightarrow>
                    (case json_get data ''offset'' JNull of
                       Inl e \<Rightarrow> Raised e
                     | Inr JNull \<Rightarrow> Yielded records None
                     | Inr offset \<Rightarrow> Yielded records (Some offset)))))"

definition iter_chunks_step ::
  "client \<Rightarrow> ('s \<Rightarrow> http_request \<Rightarrow> http_response \<times> 's) \<Rightarrow> string \<Rightarrow> json option \<Rightarrow> 's \<Rightarrow>
     (step_result \<times> 's \<times> event list) option"
where
  "iter_chunks_step c srv table_name offset s =
     (case request c srv ''get'' (table_url c table_name) (offset_kwargs offset) s of
        None \<Rightarrow> None
      | Some (res, s', tr) \<Rightarrow> Some (handle_response res, s', tr))"

text \<open>
  Iterating over a yielded chunk, as \<^verbatim>\<open>itertools.chain.from_iterable\<close> does: the elements of
  a list, the keys of a dict, the characters of a string.
\<close>

fun py_iter :: "json \<Rightarrow> error + json list" where
  "py_iter (JArr xs) = Inr xs"
| "py_iter (JObj kvs) = Inr (map (\<lambda>kv. JStr (fst kv)) kvs)"
| "py_iter (JStr s) = Inr (map (\<lambda>ch. JStr [ch]) s)"
| "py_iter JNull = Inl TypeError"
| "py_iter (JBool b) = Inl TypeError"
| "py_iter (JNum q) = Inl TypeError"

definition emit :: "event list \<Rightarrow> 'a \<times> 's \<times> event list \<Rightarrow> 'a \<times> 's \<times> event list" where
  "emit tr r = (case r of (x, s, tr') \<Rightarrow> (x, s, tr @ tr'))"

text \<open>
  \<^verbatim>\<open>list(itertools.chain.from_iterable(self.iter_chunks(table_name)))\<close>: the generator is
  driven to its end, each chunk being iterated before the next request. \<open>None\<close> is a scan
  that never ends (a server that always sends an offset).
\<close>

partial_function (option) drain ::
  "client \<Rightarrow> ('s \<Rightarrow> http_request \<Rightarrow> http_response \<times> 's) \<Rightarrow> string \<Rightarrow> json option \<Rightarrow> json list \<Rightarrow> 's \<Rightarrow>
     ((error + json list) \<times> 's \<times> event list) option"
where
  "drain c srv table_name offset acc s =
     (case iter_chunks_step c srv table_name offset s of
        None \<Rightarrow> None
      | Some (Raised e, s', tr) \<Rightarrow> Some (Inl e, s', tr)
      | Some (Yielded chunk next_offset, s', tr) \<Rightarrow>
          (case py_iter chunk of
             Inl e \<Rightarrow> Some (Inl e, s', tr)
           | Inr items \<Rightarrow>
               (case next_offset of
                  None \<Rightarrow> Some (Inr (acc @ items), s', tr)
                | Some offset' \<Rightarrow>
                    Option.bind (drain c srv table_name (Some offset') (acc @ items) s')
                      (\<lambda>r. Some (emit tr r)))))"

definition scan ::
  "client \<Rightarrow> ('s \<Rightarrow> http_request \<Rightarrow> http_response \<times> 's) \<Rightarrow> string \<Rightarrow> 's \<Rightarrow>
     ((error + json list) \<times> 's \<times> event list) option"
where
  "scan c srv table_name s = drain c srv table_name None [] s"

text \<open>The \<^verbatim>\<open>while True\<close> loop of \<^verbatim>\<open>read\<close> (lines 116-128).\<close>

partial_function (option) read_loop ::
  "client \<Rightarrow> ('s \<Rightarrow> http_request \<Rightarrow> http_response \<times> 's) \<Rightarrow> string \<Rightarrow> nat \<Rightarrow> 's \<Rightarrow>
     ((error + json list) \<times> 's \<times> event list) option"
where
  "read_loop c srv table_name restarts s =
     (case scan c srv table_name s of
        None \<Rightarrow> None
      | Some (Inr records, s', tr) \<Rightarrow> Some (Inr records, s', tr)
      | Some (Inl e, s', tr) \<Rightarrow>
          if e = AirtableIteratorError then
            if restarts = 3 then Some (Inl e, s', tr)
            else Option.bind (read_loop c srv table_name (restarts + 1) s')
                   (\<lambda>r. Some (emit (tr @ [WarnRestart (restarts + 1)]) r))
          else Some (Inl e, s', tr))"

definition read ::
  "client \<Rightarrow> ('s \<Rightarrow> http_request \<Rightarrow> http_response \<times> 's) \<Rightarrow> string \<Rightarrow> 's \<Rightarrow>
     ((error + json list) \<times> 's \<times> event list) option"
where
  "read c srv table_name s = read_loop c srv table_name 0 s"

text \<open>
  A run of consecutive scans that each end in \<open>AirtableIteratorError\<close>: the server state and
  the events each one leaves. \<open>restart_trace\<close> is what \<^verbatim>\<open>read\<close> has done after them, the
  restarts being numbered from \<open>k\<close>.
\<close>

fun scans_fail ::
  "client \<Rightarrow> ('s \<Rightarrow> http_request \<Rightarrow> http_response \<times> 's) \<Rightarrow> string \<Rightarrow> 's \<Rightarrow>
     ('s \<times> event list) list \<Rightarrow> bool"
where
  "scans_fail c srv table_name s [] = True"
| "scans_fail c srv table_name s ((s', tr) # rest) =
     (scan c srv table_name s = Some (Inl AirtableIteratorError, s', tr) \<and>
      scans_fail c srv table_name s' rest)"

fun restart_trace :: "nat \<Rightarrow> ('s \<times> event list) list \<Rightarrow> event list" where
  "restart_trace k [] = []"
| "restart_trace k ((s', tr) # rest) = tr @ [WarnRestart k] @ restart_trace (Suc k) rest"

definition state_after :: "'s \<Rightarrow> ('s \<times> event list) list \<Rightarrow> 's" where
  "state_after s fs = (if fs = [] then s else fst (last fs))"

text \<open>
  A scripted server: its state is the list of responses still to give; when the script is
  used up it answers 200 with an empty page.
\<close>

definition script_server ::
  "http_response list \<Rightarrow> http_request \<Rightarrow> http_response \<times> http_response list"
where
  "script_server s rq =
     (case s of
        [] \<Rightarrow> (\<lparr>status_code = 200, json_body = Some (JObj [])\<rparr>, [])
      | r # rest \<Rightarrow> (r, rest))"

definition iterator_gone :: http_response where
  "iterator_gone =
     \<lparr>status_code = 422,
      json_body = Some (JObj [(''error'', JStr ''LIST_RECORDS_ITERATOR_NOT_AVAILABLE'')])\<rparr>"

definition page :: "json list \<Rightarrow> json option \<Rightarrow> http_response" where
  "page records offset =
     \<lparr>status_code = 200,
      json_body = Some (JObj ((''records'', JArr records) #
        (case offset of None \<Rightarrow> [] | Some v \<Rightarrow> [(''offset'', v)])))\<rparr>"

section \<open>lib/airtable.py: writing\<close>

text \<open>
  \<^verbatim>\<open>range(i, stop, step)\<close> counting upwards. With a negative step and \<open>i \<le> stop\<close> the range
  is empty as well; a zero step is an error, raised by the caller below.
\<close>

function py_range :: "int \<Rightarrow> int \<Rightarrow> int \<Rightarrow> int list" where
  "py_range i stop step =
     (if 0 < step \<and> i < stop then i # py_range (i + step) stop step else [])"
  by pat_completeness auto
termination
  by (relation "measure (\<lambda>(i, stop, step). nat (stop - i))") auto

declare py_range.simps [simp del]

text \<open>\<^verbatim>\<open>seq[i : j]\<close> for \<open>0 \<le> i\<close>.\<close>

definition slice :: "'a list \<Rightarrow> int \<Rightarrow> int \<Rightarrow> 'a list" where
  "slice seq i j = take (nat j - nat i) (drop (nat i) seq)"

text \<open>\<^verbatim>\<open>chunked(seq, n)\<close>, driven to its end; \<^verbatim>\<open>range\<close> raises ValueError for a zero step.\<close>

definition chunked :: "'a list \<Rightarrow> int \<Rightarrow> error + 'a list list" where
  "chunked seq n =
     (if n = 0 then Inl ValueError
      else Inr (map (\<lambda>i. slice seq i (i + n)) (py_range 0 (int (length seq)) n)))"

text \<open>
  The records handed to \<^verbatim>\<open>write\<close> are dict objects that the caller still holds: a record is
  an address and the heap maps every address to the dict stored there.
\<close>

type_synonym ref = nat
type_synonym heap = "ref \<Rightarrow> (string \<times> json) list"

definition build_append_payload :: "ref list \<Rightarrow> heap \<Rightarrow> (error + json) \<times> heap" where
  "build_append_payload records h =
     (Inr (JObj [(''records'', JArr (map (\<lambda>r. JObj [(''fields'', JObj (h r))]) records)),
                 (''typecast'', JBool True)]), h)"

text \<open>
  The list comprehension of \<^verbatim>\<open>build_update_payload\<close>: \<^verbatim>\<open>record.pop("id")\<close> takes the id out
  of the dict in the heap (KeyError when there is none); the envelope keeps the id and a
  reference to the same dict.
\<close>

fun pop_ids :: "ref list \<Rightarrow> heap \<Rightarrow> (error + (json \<times> ref) list) \<times> heap" where
  "pop_ids [] h = (Inr [], h)"
| "pop_ids (r # rs) h =
     (case map_of (h r) ''id'' of
        None \<Rightarrow> (Inl (KeyError ''id''), h)
      | Some i \<Rightarrow>
          (case pop_ids rs (h(r := AList.delete ''id'' (h r))) of
             (Inl e, h') \<Rightarrow> (Inl e, h')
           | (Inr envelopes, h') \<Rightarrow> (Inr ((i, r) # envelopes), h')))"

text \<open>The payload is serialised when the request is made, from the dicts as they are then.\<close>

definition build_update_payload :: "ref list \<Rightarrow> heap \<Rightarrow> (error + json) \<times> heap" where
  "build_update_payload records h =
     (case pop_ids records h of
        (Inl e, h') \<Rightarrow> (Inl e, h')
      | (Inr envelopes, h') \<Rightarrow>
          (Inr (JObj [(''records'',
                       JArr (map (\<lambda>(i, r). JObj [(''id'', i), (''fields'', JObj (h' r))]) envelopes)),
                      (''typecast'', JBool True)]), h'))"

definition json_kwargs :: "json \<Rightarrow> kwargs" where
  "json_kwargs payload = no_kwargs\<lparr>kw_json := Some payload\<rparr>"

text \<open>The \<^verbatim>\<open>for chunk in chunked(...)\<close> loop of \<^verbatim>\<open>write\<close> (lines 143-145).\<close>

fun write_loop ::
  "client \<Rightarrow> ('s \<Rightarrow> http_request \<Rightarrow> http_response \<times> 's) \<Rightarrow> string \<Rightarrow> string \<Rightarrow>
     (ref list \<Rightarrow> heap \<Rightarrow> (error + json) \<times> heap) \<Rightarrow> ref list list \<Rightarrow> 's \<Rightarrow> heap \<Rightarrow>
     ((error + unit) \<times> 's \<times> heap \<times> event list) option"
where
  "write_loop c srv method u build_payload [] s h = Some (Inr (), s, h, [])"
| "write_loop c srv method u build_payload (chunk # rest) s h =
     (case build_payload chunk h of
        (Inl e, h') \<Rightarrow> Some (Inl e, s, h', [])
      | (Inr payload, h') \<Rightarrow>
          (case request c srv method u (json_kwargs payload) s of
             None \<Rightarrow> None
           | Some (Inl e, s', tr) \<Rightarrow> Some (Inl e, s', h', tr)
           | Some (Inr response, s', tr) \<Rightarrow>
               (case write_loop c srv method u build_payload rest s' h' of
                  None \<Rightarrow> None
                | Some (res, s2, h2, tr2) \<Rightarrow> Some (res, s2, h2, tr @ tr2))))"

text \<open>\<^verbatim>\<open>AirtableClient.write\<close>.\<close>

definition write_records ::
  "client \<Rightarrow> ('s \<Rightarrow> http_request \<Rightarrow> http_response \<times> 's) \<Rightarrow> ref list \<Rightarrow> string \<Rightarrow> bool \<Rightarrow> 's \<Rightarrow> heap \<Rightarrow>
     ((error + unit) \<times> 's \<times> heap \<times> event list) option"
where
  "write_records c srv records table_name update s h =
     (case chunked records (write_chunk_size c) of
        Inl e \<Rightarrow> Some (Inl e, s, h, [])
      | Inr chunks \<Rightarrow>
          if update
          then write_loop c srv ''patch'' (table_url c table_name) build_update_payload chunks s h
          else write_loop c srv ''post'' (table_url c table_name) build_append_payload chunks s h)"

definition append_records ::
  "client \<Rightarrow> ('s \<Rightarrow> http_request \<Rightarrow> http_response \<times> 's) \<Rightarrow> ref list \<Rightarrow> string \<Rightarrow> 's \<Rightarrow> heap \<Rightarrow>
     ((error + unit) \<times> 's \<times> heap \<times> event list) option"
where
  "append_records c srv records table_name s h = write_records c srv records table_name False s h"


text \<open>The requests of a trace, in order.\<close>

fun sent :: "event list \<Rightarrow> http_request list" where
  "sent [] = []"
| "sent (Sent rq # tr) = rq # sent tr"
| "sent (ev # tr) = sent tr"




definition has_id :: "heap \<Rightarrow> ref \<Rightarrow> bool" where
  "has_id h r \<longleftrightarrow> ''id'' \<in> set (map fst (h r))"

section \<open>load.py\<close>

text \<open>\<^verbatim>\<open>s.split(sep)\<close> for a separator of one character.\<close>

fun split_on :: "char \<Rightarrow> string \<Rightarrow> string list" where
  "split_on sep [] = [[]]"
| "split_on sep (c # cs) =
     (if c = sep then [] # split_on sep cs
      else (case split_on sep cs of
              [] \<Rightarrow> [[c]]
            | w # ws \<Rightarrow> (c # w) # ws))"

text \<open>
  \<^verbatim>\<open>parse_table_name\<close>: the values of the dict it returns, in order (database, schema,
  table); \<open>None\<close> is the absent database.
\<close>

definition parse_table_name :: "string \<Rightarrow> error + (string option \<times> string \<times> string)" where
  "parse_table_name name =
     (case split_on CHR ''.'' name of
        [database, schema, table] \<Rightarrow> Inr (Some database, schema, table)
      | [schema, table] \<Rightarrow> Inr (None, schema, table)
      | _ \<Rightarrow> Inl ValueError)"

text \<open>
  A record of the API is a dict. \<^verbatim>\<open>process_record\<close> pops \<^verbatim>\<open>fields\<close> (default \<^verbatim>\<open>{}\<close>) and
  updates the record with it; \<^verbatim>\<open>fields.keys()\<close> needs a dict. The warning it logs about
  overlapping names has no effect on the result and is left out.
\<close>

definition process_record :: "(string \<times> json) list \<Rightarrow> error + (string \<times> json) list" where
  "process_record record =
     (case map_of record ''fields'' of
        None \<Rightarrow> Inr (AList.delete ''fields'' record)
      | Some (JObj field_map) \<Rightarrow> Inr (dict_update (AList.delete ''fields'' record) field_map)
      | Some other \<Rightarrow> Inl AttributeError)"

fun process_records :: "(string \<times> json) list list \<Rightarrow> error + (string \<times> json) list list" where
  "process_records [] = Inr []"
| "process_records (record # records) =
     (case process_record record of
        Inl e \<Rightarrow> Inl e
      | Inr r \<Rightarrow> (case process_records records of Inl e \<Rightarrow> Inl e | Inr rs \<Rightarrow> Inr (r # rs)))"

text \<open>
  \<^verbatim>\<open>re.sub(pattern + "+", "_", s)\<close> for a pattern that is a character class: every maximal
  run of characters of the class becomes one underscore.
\<close>

function sub_runs :: "(char \<Rightarrow> bool) \<Rightarrow> string \<Rightarrow> string" where
  "sub_runs p [] = []"
| "sub_runs p (c # cs) =
     (if p c then CHR ''_'' # sub_runs p (dropWhile p cs) else c # sub_runs p cs)"
  by pat_completeness auto
termination
  by (relation "measure (\<lambda>(p, s). length s)") (auto simp: length_dropWhile_le less_Suc_eq_le)

definition column_chars :: string where
  "column_chars = ascii_lower @ ''0123456789_''"

text \<open>
  \<^verbatim>\<open>rename_column\<close>. The second substitution, of \<^verbatim>\<open>_{2,}\<close>, replaces the runs of two or more
  underscores; a single underscore is replaced by itself.
\<close>

definition rename_column :: "string \<Rightarrow> string" where
  "rename_column name =
     sub_runs (\<lambda>c. c = CHR ''_'') (sub_runs (\<lambda>c. c \<notin> set column_chars) (lower name))"

text \<open>
  A cell of a DataFrame: missing (NaN), a value as the API gave it, or the string
  \<^verbatim>\<open>json.dumps(value)\<close>, kept as the cell that is serialised.
\<close>

datatype cell = Missing | Val json | Dumped cell

fun maybe_jsonify :: "cell \<Rightarrow> cell" where
  "maybe_jsonify Missing = Missing"
| "maybe_jsonify (Val JNull) = Val JNull"
| "maybe_jsonify value = Dumped value"

record frame =
  columns :: "string list"
  rows :: "cell list list"

definition jsonified_types :: "string list" where
  "jsonified_types = [''multipleSelects'', ''multilineText'', ''formula'']"

text \<open>\<^verbatim>\<open>df[field_name] = df[field_name].apply(maybe_jsonify)\<close> on one row.\<close>

definition jsonify_column :: "string list \<Rightarrow> string \<Rightarrow> cell list \<Rightarrow> cell list" where
  "jsonify_column cols field_name row =
     map (\<lambda>(c, v). if c = field_name then maybe_jsonify v else v) (zip cols row)"

definition jsonify_fields :: "(string \<times> string) list \<Rightarrow> string list \<Rightarrow> cell list \<Rightarrow> cell list" where
  "jsonify_fields field_info cols row =
     fold (\<lambda>(field_name, field_type) r.
             if field_type \<in> set jsonified_types then jsonify_column cols field_name r else r)
       field_info row"

text \<open>
  \<^verbatim>\<open>result_to_df\<close>. \<^verbatim>\<open>field_info\<close> is a dict in its insertion order; \<^verbatim>\<open>convert_dtypes\<close>
  changes the types of the columns only, which the model does not keep.
\<close>

definition result_to_df ::
  "(string \<times> json) list list \<Rightarrow> (string \<times> string) list \<Rightarrow> error + frame"
where
  "result_to_df data field_info =
     (let cols = [''id''] @ map fst field_info @ [''createdTime''] in
      case process_records data of
        Inl e \<Rightarrow> Inl e
      | Inr records \<Rightarrow>
          Inr \<lparr>columns = map rename_column cols,
               rows = map (\<lambda>record.
                        jsonify_fields field_info cols
                          (map (\<lambda>c. case map_of record c of None \<Rightarrow> Missing | Some v \<Rightarrow> Val v) cols))
                      records\<rparr>)"

text \<open>
  The warehouse: its schemas and its tables under their qualified names. The statements
  are those of section 6 of the specification, each failing with \<open>ProgrammingError\<close> where
  SQL does.
\<close>

record warehouse =
  schemas :: "string set"
  tables :: "string \<rightharpoonup> frame"

definition qualified_name :: "string \<Rightarrow> string \<Rightarrow> string" where
  "qualified_name schema table = schema @ ''.'' @ table"

definition drop_table_if_exists :: "string \<Rightarrow> warehouse \<Rightarrow> warehouse" where
  "drop_table_if_exists k wh = wh\<lparr>tables := (tables wh)(k := None)\<rparr>"

definition drop_table :: "string \<Rightarrow> warehouse \<Rightarrow> error + warehouse" where
  "drop_table k wh =
     (case tables wh k of
        None \<Rightarrow> Inl ProgrammingError
      | Some t \<Rightarrow> Inr (wh\<lparr>tables := (tables wh)(k := None)\<rparr>))"

definition delete_from :: "string \<Rightarrow> warehouse \<Rightarrow> error + warehouse" where
  "delete_from k wh =
     (case tables wh k of
        None \<Rightarrow> Inl ProgrammingError
      | Some t \<Rightarrow> Inr (wh\<lparr>tables := (tables wh)(k \<mapsto> t\<lparr>rows := []\<rparr>)\<rparr>))"

definition swap_with :: "string \<Rightarrow> string \<Rightarrow> warehouse \<Rightarrow> error + warehouse" where
  "swap_with a b wh =
     (case (tables wh a, tables wh b) of
        (Some ta, Some tb) \<Rightarrow> Inr (wh\<lparr>tables := (tables wh)(a \<mapsto> tb, b \<mapsto> ta)\<rparr>)
      | _ \<Rightarrow> Inl ProgrammingError)"

definition rename_to :: "string \<Rightarrow> string \<Rightarrow> warehouse \<Rightarrow> error + warehouse" where
  "rename_to a b wh =
     (case (tables wh a, tables wh b) of
        (Some ta, None) \<Rightarrow> Inr (wh\<lparr>tables := (tables wh)(a := None, b \<mapsto> ta)\<rparr>)
      | _ \<Rightarrow> Inl ProgrammingError)"

definition table_exists :: "warehouse \<Rightarrow> string \<Rightarrow> string \<Rightarrow> bool" where
  "table_exists wh schema table \<longleftrightarrow> tables wh (qualified_name schema table) \<noteq> None"

datatype if_exists = Fail | Append

text \<open>
  \<^verbatim>\<open>materialize\<close>: \<^verbatim>\<open>create schema if not exists\<close>, then \<^verbatim>\<open>df.to_sql\<close>, which creates the
  table when it is missing and otherwise raises ValueError (\<^verbatim>\<open>if_exists="fail"\<close>) or inserts
  the rows (\<^verbatim>\<open>"append"\<close>). The error comes with the warehouse as it is left.
\<close>

definition materialize ::
  "warehouse \<Rightarrow> frame \<Rightarrow> string \<Rightarrow> string \<Rightarrow> if_exists \<Rightarrow> error option \<times> warehouse"
where
  "materialize wh df schema table mode =
     (let wh1 = wh\<lparr>schemas := insert schema (schemas wh)\<rparr>;
          k = qualified_name schema table in
      case tables wh1 k of
        None \<Rightarrow> (None, wh1\<lparr>tables := (tables wh1)(k \<mapsto> df)\<rparr>)
      | Some t \<Rightarrow>
          (case mode of
             Fail \<Rightarrow> (Some ValueError, wh1)
           | Append \<Rightarrow>
               if columns t = columns df
               then (None, wh1\<lparr>tables := (tables wh1)(k \<mapsto> t\<lparr>rows := rows t @ rows df\<rparr>)\<rparr>)
               else (Some ProgrammingError, wh1)))"

text \<open>
  A run of an iterator: it ends, it yields a value and goes on, or it raises.
\<close>

datatype 'a gen = Done | Yield 'a "'a gen" | Raise error

fun yielded :: "'a gen \<Rightarrow> 'a list" where
  "yielded Done = []"
| "yielded (Yield x g) = x # yielded g"
| "yielded (Raise e) = []"

text \<open>The \<^verbatim>\<open>for chunk in chunks\<close> loop of \<^verbatim>\<open>_load_chunks\<close> (lines 124-133).\<close>

fun append_chunks ::
  "warehouse \<Rightarrow> (string \<times> json) list list gen \<Rightarrow> (string \<times> string) list \<Rightarrow> string \<Rightarrow> string \<Rightarrow> int \<Rightarrow>
     (error + int) \<times> warehouse"
where
  "append_chunks wh Done field_info schema temporary_table count = (Inr count, wh)"
| "append_chunks wh (Raise e) field_info schema temporary_table count = (Inl e, wh)"
| "append_chunks wh (Yield chunk chunks) field_info schema temporary_table count =
     (case result_to_df chunk field_info of
        Inl e \<Rightarrow> (Inl e, wh)
      | Inr df \<Rightarrow>
          (case materialize wh df schema temporary_table Append of
             (Some e, wh1) \<Rightarrow> (Inl e, wh1)
           | (None, wh1) \<Rightarrow>
               append_chunks wh1 chunks field_info schema temporary_table
                 (count + int (length (rows df)))))"

text \<open>Lines 137-148: the table is created although no row was loaded.\<close>

definition create_empty ::
  "warehouse \<Rightarrow> (string \<times> string) list \<Rightarrow> string \<Rightarrow> string \<Rightarrow> error option \<times> warehouse"
where
  "create_empty wh field_info schema temporary_table =
     (case result_to_df [] field_info of
        Inl e \<Rightarrow> (Some e, wh)
      | Inr nulls_df \<Rightarrow>
          (case materialize wh
                  (nulls_df\<lparr>rows := rows nulls_df @ [map (\<lambda>c. Val JNull) (columns nulls_df)]\<rparr>)
                  schema temporary_table Fail of
             (Some e, wh1) \<Rightarrow> (Some e, wh1)
           | (None, wh1) \<Rightarrow>
               (case delete_from (qualified_name schema temporary_table) wh1 of
                  Inl e \<Rightarrow> (Some e, wh1)
                | Inr wh2 \<Rightarrow> (None, wh2))))"

text \<open>Lines 150-160: the temporary table is moved into place.\<close>

definition cutover :: "warehouse \<Rightarrow> string \<Rightarrow> string \<Rightarrow> string \<Rightarrow> error option \<times> warehouse" where
  "cutover wh schema table temporary_table =
     (if table_exists wh schema table then
        (case swap_with (qualified_name schema temporary_table) (qualified_name schema table) wh of
           Inl e \<Rightarrow> (Some e, wh)
         | Inr wh1 \<Rightarrow>
             (case drop_table (qualified_name schema temporary_table) wh1 of
                Inl e \<Rightarrow> (Some e, wh1)
              | Inr wh2 \<Rightarrow> (None, wh2)))
      else
        (case rename_to (qualified_name schema temporary_table) (qualified_name schema table) wh of
           Inl e \<Rightarrow> (Some e, wh)
         | Inr wh1 \<Rightarrow> (None, wh1)))"

text \<open>
  The schema and the table that \<^verbatim>\<open>_load_chunks\<close> derives from its destination (lines
  116-120): an empty database name is false and leaves the schema as it is.
\<close>

definition target :: "string \<Rightarrow> error + (string \<times> string)" where
  "target destination =
     (case parse_table_name destination of
        Inl e \<Rightarrow> Inl e
      | Inr (database, schema, table) \<Rightarrow>
          Inr (case database of
                 None \<Rightarrow> schema
               | Some d \<Rightarrow> if d = [] then schema else d @ ''.'' @ schema,
               table))"

definition temporary_name :: "string \<Rightarrow> string" where
  "temporary_name table = table @ ''__loader_tmp''"

text \<open>\<^verbatim>\<open>_load_chunks\<close>.\<close>

definition load_chunks ::
  "warehouse \<Rightarrow> (string \<times> json) list list gen \<Rightarrow> (string \<times> string) list \<Rightarrow> string \<Rightarrow>
     (error + int) \<times> warehouse"
where
  "load_chunks wh chunks field_info destination =
     (case target destination of
        Inl e \<Rightarrow> (Inl e, wh)
      | Inr (schema, table) \<Rightarrow>
          (let temporary_table = temporary_name table;
               wh0 = drop_table_if_exists (qualified_name schema temporary_table) wh in
           case append_chunks wh0 chunks field_info schema temporary_table 0 of
             (Inl e, wh1) \<Rightarrow> (Inl e, wh1)
           | (Inr count, wh1) \<Rightarrow>
               (case (if count = 0 then create_empty wh1 field_info schema temporary_table
                      else (None, wh1)) of
                  (Some e, wh2) \<Rightarrow> (Inl e, wh2)
                | (None, wh2) \<Rightarrow>
                    (case cutover wh2 schema table temporary_table of
                       (Some e, wh3) \<Rightarrow> (Inl e, wh3)
                     | (None, wh3) \<Rightarrow> (Inr count, wh3)))))"

text \<open>The columns of every frame that \<^verbatim>\<open>result_to_df\<close> returns for a FieldInfo.\<close>

definition shaped_columns :: "(string \<times> string) list \<Rightarrow> string list" where
  "shaped_columns field_info =
     [''id''] @ map rename_column (map fst field_info) @ [''createdtime'']"

text \<open>A small load, for evaluation: a destination that exists, two chunks of one record.\<close>

definition example_warehouse :: warehouse where
  "example_warehouse =
     \<lparr>schemas = {''db.sch''},
      tables = [''db.sch.people'' \<mapsto>
        \<lparr>columns = [''id'', ''name'', ''createdtime''],
         rows = [[Val (JStr ''recOld''), Val (JStr ''Old''), Val (JStr ''2019'')]]\<rparr>]\<rparr>"

definition example_field_info :: "(string \<times> string) list" where
  "example_field_info = [(''Name'', ''singleLineText'')]"

definition example_chunks :: "(string \<times> json) list list gen" where
  "example_chunks =
     Yield [[(''id'', JStr ''rec1''), (''createdTime'', JStr ''2020''),
             (''fields'', JObj [(''Name'', JStr ''Ann'')])]]
       (Yield [[(''id'', JStr ''rec2''), (''createdTime'', JStr ''2021''),
                (''fields'', JObj [])]]
          Done)"

section \<open>send.py\<close>

text \<open>
  The values of a database row, and of the record built from it. \<open>PFloat q\<close> is the float
  nearest to \<open>q\<close>: \<^verbatim>\<open>float(value)\<close> of a Decimal is kept as the number that is converted.
\<close>

record datetime =
  year :: nat
  month :: nat
  day :: nat
  hour :: nat
  minute :: nat
  second :: nat

datatype pyval =
    PNone
  | PDecimal rat
  | PFloat rat
  | PDatetime datetime
  | PDate nat nat nat
  | PStr string
  | PInt int
  | PBool bool
  | PList "pyval list"

definition digit_char :: "nat \<Rightarrow> char" where
  "digit_char n = ''0123456789'' ! (n mod 10)"

fun digits :: "nat \<Rightarrow> string" where
  "digits n = (if n < 10 then [digit_char n] else digits (n div 10) @ [digit_char n])"

declare digits.simps [simp del]

definition pad2 :: "nat \<Rightarrow> string" where
  "pad2 n = (if n < 10 then CHR ''0'' # digits n else digits n)"

text \<open>\<^verbatim>\<open>value.strftime("%m/%d/%Y %H:%M:%S")\<close>, the year as glibc prints it.\<close>

definition strftime :: "datetime \<Rightarrow> string" where
  "strftime d =
     pad2 (month d) @ ''/'' @ pad2 (day d) @ ''/'' @ digits (year d) @ '' '' @
     pad2 (hour d) @ '':'' @ pad2 (minute d) @ '':'' @ pad2 (second d)"

text \<open>The ASCII characters that \<^verbatim>\<open>str.strip()\<close> removes.\<close>

definition whitespace :: string where
  "whitespace = [CHR '' '', CHR 0x09, CHR 0x0A, CHR 0x0B, CHR 0x0C, CHR 0x0D,
                 CHR 0x1C, CHR 0x1D, CHR 0x1E, CHR 0x1F]"

definition strip :: "string \<Rightarrow> string" where
  "strip s =
     rev (dropWhile (\<lambda>c. c \<in> set whitespace) (rev (dropWhile (\<lambda>c. c \<in> set whitespace) s)))"

definition ends_with :: "string \<Rightarrow> string \<Rightarrow> bool" where
  "ends_with s suffix = starts_with (rev s) (rev suffix)"

text \<open>
  The \<^verbatim>\<open>isinstance\<close> chain of \<^verbatim>\<open>row_to_record\<close> (lines 46-57), in its order.
  \<^verbatim>\<open>date.isoformat\<close> takes no argument: the call \<^verbatim>\<open>value.isoformat("%m/%d/%Y")\<close> raises
  TypeError.
\<close>

fun encode :: "string \<Rightarrow> pyval \<Rightarrow> error + pyval" where
  "encode query_name (PDecimal d) = Inr (PFloat d)"
| "encode query_name (PDatetime d) = Inr (PStr (strftime d))"
| "encode query_name (PDate y m d) = Inl TypeError"
| "encode query_name (PStr s) =
     (if strip s \<noteq> [] \<and> ends_with query_name ''_list''
      then Inr (PList (map (\<lambda>item. PStr (strip item)) (split_on CHR ''|'' s)))
      else Inr (PStr s))"
| "encode query_name v = Inr v"

text \<open>The inner loop over \<^verbatim>\<open>query_names\<close>, which breaks at the first value that is not None.\<close>

fun first_value :: "(string \<times> pyval) list \<Rightarrow> string list \<Rightarrow> error + pyval option" where
  "first_value row [] = Inr None"
| "first_value row (query_name # query_names) =
     (case map_of row query_name of
        None \<Rightarrow> first_value row query_names
      | Some PNone \<Rightarrow> first_value row query_names
      | Some v \<Rightarrow> (case encode query_name v of Inl e \<Rightarrow> Inl e | Inr v' \<Rightarrow> Inr (Some v')))"

text \<open>The outer loop over \<^verbatim>\<open>field_mappings.items()\<close>; \<^verbatim>\<open>query_names or []\<close>.\<close>

fun fill_record ::
  "(string \<times> pyval) list \<Rightarrow> (string \<times> string list option) list \<Rightarrow> (string \<times> pyval) list \<Rightarrow>
     error + (string \<times> pyval) list"
where
  "fill_record row [] result = Inr result"
| "fill_record row ((airtable_name, query_names) # rest) result =
     (case first_value row (case query_names of None \<Rightarrow> [] | Some qs \<Rightarrow> qs) of
        Inl e \<Rightarrow> Inl e
      | Inr None \<Rightarrow> fill_record row rest result
      | Inr (Some v) \<Rightarrow> fill_record row rest (AList.update airtable_name v result))"

definition row_to_record ::
  "(string \<times> pyval) list \<Rightarrow> (string \<times> string list option) list \<Rightarrow> error + (string \<times> pyval) list"
where
  "row_to_record row field_mappings = fill_record row field_mappings []"

text \<open>
  In the words of the specification: the first candidate column whose value is not null,
  with that value.
\<close>

definition non_null :: "(string \<times> pyval) list \<Rightarrow> string \<Rightarrow> bool" where
  "non_null row q \<longleftrightarrow> (case map_of row q of None \<Rightarrow> False | Some v \<Rightarrow> v \<noteq> PNone)"

definition first_candidate ::
  "(string \<times> pyval) list \<Rightarrow> string list option \<Rightarrow> (string \<times> pyval) option"
where
  "first_candidate row query_names =
     (case find (non_null row) (case query_names of None \<Rightarrow> [] | Some qs \<Rightarrow> qs) of
        None \<Rightarrow> None
      | Some q \<Rightarrow> Some (q, the (map_of row q)))"

fun is_date :: "pyval \<Rightarrow> bool" where
  "is_date (PDate y m d) = True"
| "is_date v = False"

definition example_row :: "(string \<times> pyval) list" where
  "example_row =
     [(''name'', PStr ''Ann''), (''alt'', PNone), (''price'', PDecimal (5 / 2)),
      (''seen'', PDatetime \<lparr>year = 2024, month = 3, day = 7, hour = 9, minute = 5, second = 0\<rparr>),
      (''tags_list'', PStr ''a | b|c '')]"

definition example_mappings :: "(string \<times> string list option) list" where
  "example_mappings =
     [(''id'', Some [''id'']), (''Name'', Some [''alt'', ''name'']), (''Price'', Some [''price'']),
      (''Seen'', Some [''seen'']), (''Tags'', Some [''tags_list''])]"

section \<open>The retry loop\<close>

lemma next_wait_div: "next_wait w = (3 * w + 1) div 2"
proof -
  have "of_int w * (3 / 2 :: rat) = of_int (3 * w) / of_int 2"
    by (simp add: field_simps)
  then have "next_wait w = \<lceil>(of_int (3 * w) :: rat) / of_int 2\<rceil>"
    by (simp only: next_wait_def)
  also have "\<dots> = - ((- (3 * w)) div 2)"
    by (simp only: ceiling_divide_eq_div)
  also have "\<dots> = (3 * w + 1) div 2"
    by presburger
  finally show ?thesis .
qed

lemma request_loop_retry:
  assumes "status_code (fst (srv s rq)) = 429" and "retries \<noteq> 3"
  shows "request_loop srv rq retries wait s tr =
         request_loop srv rq (retries + 1) (next_wait wait) (snd (srv s rq))
           (tr @ [Sent rq, Warn429 (retries + 1) wait, Sleep (of_int wait)])"
  using assms by (subst request_loop.simps) (simp add: case_prod_beta)

lemma request_loop_leave:
  assumes "status_code (fst (srv s rq)) \<noteq> 429 \<or> retries = 3"
  shows "request_loop srv rq retries wait s tr =
         Some (fst (srv s rq), snd (srv s rq), tr @ [Sent rq])"
  using assms by (subst request_loop.simps) (auto simp: case_prod_beta)

text \<open>From at most three retries on, the loop leaves: it is total where the code starts it.\<close>

lemma request_loop_returns:
  "retries \<le> 3 \<Longrightarrow> \<exists>r s' tr'. request_loop srv rq retries wait s tr = Some (r, s', tr')"
proof (induction "3 - retries" arbitrary: retries wait s tr)
  case 0
  then have "retries = 3" by simp
  then show ?case by (simp add: request_loop_leave)
next
  case (Suc n)
  then have r: "retries \<noteq> 3" "retries + 1 \<le> 3" "n = 3 - (retries + 1)" by simp_all
  show ?case
  proof (cases "status_code (fst (srv s rq)) = 429")
    case True
    have step: "request_loop srv rq retries wait s tr =
        request_loop srv rq (retries + 1) (next_wait wait) (snd (srv s rq))
          (tr @ [Sent rq, Warn429 (retries + 1) wait, Sleep (of_int wait)])"
      using True r(1) by (rule request_loop_retry)
    from Suc.hyps(1) [OF r(3) r(2)] show ?thesis
      by (simp only: step)
  next
    case False
    then show ?thesis by (simp add: request_loop_leave)
  qed
qed

lemma request_returns: "\<exists>res s' tr. request c srv method u kw s = Some (res, s', tr)"
proof -
  have "\<exists>r s' tr'. request_loop srv (build_request method u kw) 0 30 s [] = Some (r, s', tr')"
    by (rule request_loop_returns) simp
  then obtain r s' tr' where
    "request_loop srv (build_request method u kw) 0 30 s [] = Some (r, s', tr')"
    by blast
  then show ?thesis by (simp add: request_def)
qed


lemma const_server_fst:
  "fst (const_server code s rq) = \<lparr>status_code = code, json_body = None\<rparr>"
  by (simp add: const_server_def)

lemma request_loop_busy:
  assumes busy: "\<forall>k\<le>3. status_code (fst (srv (srv_after srv rq k s) rq)) = 429"
  shows "request_loop srv rq 0 30 s [] =
         Some (fst (srv (srv_after srv rq 3 s) rq), srv_after srv rq 4 s,
               [Sent rq, Warn429 1 30, Sleep 30,
                Sent rq, Warn429 2 45, Sleep 45,
                Sent rq, Warn429 3 68, Sleep 68,
                Sent rq])"
proof -
  let ?s1 = "snd (srv s rq)"
  let ?s2 = "snd (srv ?s1 rq)"
  let ?s3 = "snd (srv ?s2 rq)"
  have st: "srv_after srv rq 1 s = ?s1" "srv_after srv rq 2 s = ?s2" "srv_after srv rq 3 s = ?s3"
    "srv_after srv rq 4 s = snd (srv ?s3 rq)"
    by (simp_all add: eval_nat_numeral)
  have b0: "status_code (fst (srv s rq)) = 429" using busy [rule_format, of 0] by simp
  have b1: "status_code (fst (srv ?s1 rq)) = 429" using busy [rule_format, of 1] st by simp
  have b2: "status_code (fst (srv ?s2 rq)) = 429" using busy [rule_format, of 2] st by simp
  have b3: "status_code (fst (srv ?s3 rq)) = 429" using busy [rule_format, of 3] st by simp
  have "request_loop srv rq 0 30 s [] =
        request_loop srv rq 1 45 ?s1 [Sent rq, Warn429 1 30, Sleep 30]"
    using b0 request_loop_retry [of srv s rq 0 30 "[]"]
    by (simp add: next_wait_div numeral_2_eq_2 numeral_3_eq_3)
  also have "\<dots> = request_loop srv rq 2 68 ?s2
        [Sent rq, Warn429 1 30, Sleep 30, Sent rq, Warn429 2 45, Sleep 45]"
    using b1 request_loop_retry [of srv ?s1 rq 1 45]
    by (simp add: next_wait_div numeral_2_eq_2 numeral_3_eq_3)
  also have "\<dots> = request_loop srv rq 3 102 ?s3
        [Sent rq, Warn429 1 30, Sleep 30, Sent rq, Warn429 2 45, Sleep 45,
         Sent rq, Warn429 3 68, Sleep 68]"
    using b2 request_loop_retry [of srv ?s2 rq 2 68]
    by (simp add: next_wait_div numeral_2_eq_2 numeral_3_eq_3)
  also have "\<dots> = Some (fst (srv ?s3 rq), snd (srv ?s3 rq),
        [Sent rq, Warn429 1 30, Sleep 30, Sent rq, Warn429 2 45, Sleep 45,
         Sent rq, Warn429 3 68, Sleep 68, Sent rq])"
    by (subst request_loop_leave) (simp_all add: numeral_2_eq_2 numeral_3_eq_3)
  finally show ?thesis
    unfolding st .
qed

lemma request_loop_ends_with_send:
  "retries \<le> 3 \<Longrightarrow> request_loop srv rq retries wait s tr = Some (r, s', tr') \<Longrightarrow>
     \<exists>tr0. tr' = tr0 @ [Sent rq]"
proof (induction "3 - retries" arbitrary: retries wait s tr)
  case 0
  then have "retries = 3" by simp
  with 0 show ?case by (auto simp: request_loop_leave)
next
  case (Suc n)
  then have r: "retries \<noteq> 3" "retries + 1 \<le> 3" "n = 3 - (retries + 1)" by simp_all
  show ?case
  proof (cases "status_code (fst (srv s rq)) = 429")
    case True
    have step: "request_loop srv rq retries wait s tr =
        request_loop srv rq (retries + 1) (next_wait wait) (snd (srv s rq))
          (tr @ [Sent rq, Warn429 (retries + 1) wait, Sleep (of_int wait)])"
      using True r(1) by (rule request_loop_retry)
    from Suc.prems(2) have "request_loop srv rq (retries + 1) (next_wait wait) (snd (srv s rq))
          (tr @ [Sent rq, Warn429 (retries + 1) wait, Sleep (of_int wait)]) = Some (r, s', tr')"
      by (simp only: step)
    with Suc.hyps(1) [OF r(3) r(2)] show ?thesis by blast
  next
    case False
    with Suc.prems(2) show ?thesis by (auto simp: request_loop_leave)
  qed
qed

text \<open>
  Claim C2. A request whose first four responses are all HTTP 429 sleeps 30, 45 and 68
  (30, then times 1.5 rounded up) before its three retries, in that order, and on the fourth
  429 raises \<open>HTTPError\<close> without a further retry or sleep.
\<close>

theorem request_sustained_429:
  assumes rq: "rq = build_request method u kw"
    and busy: "\<forall>k\<le>3. status_code (fst (srv (srv_after srv rq k s) rq)) = 429"
  shows "request c srv method u kw s =
         Some (Inl (HTTPError (fst (srv (srv_after srv rq 3 s) rq))), srv_after srv rq 4 s,
               [Sent rq, Warn429 1 30, Sleep 30,
                Sent rq, Warn429 2 45, Sleep 45,
                Sent rq, Warn429 3 68, Sleep 68,
                Sent rq])"
proof -
  have "raises_for_status (fst (srv (srv_after srv rq 3 s) rq))"
    using busy [rule_format, of 3] by (simp add: raises_for_status_def)
  with request_loop_busy [OF busy] show ?thesis
    unfolding request_def rq [symmetric] by simp
qed

theorem request_sustained_429_witness:
  "request (AirtableClient ''app'' ''key'') (const_server 429) ''get'' ''https://x'' no_kwargs () =
     Some (Inl (HTTPError \<lparr>status_code = 429, json_body = None\<rparr>), (),
       [Sent (build_request ''get'' ''https://x'' no_kwargs), Warn429 1 30, Sleep 30,
        Sent (build_request ''get'' ''https://x'' no_kwargs), Warn429 2 45, Sleep 45,
        Sent (build_request ''get'' ''https://x'' no_kwargs), Warn429 3 68, Sleep 68,
        Sent (build_request ''get'' ''https://x'' no_kwargs)])"
  using request_sustained_429 [of "build_request ''get'' ''https://x'' no_kwargs" "''get''" "''https://x''"
      no_kwargs "const_server 429" "()" "AirtableClient ''app'' ''key''"]
  by (simp add: const_server_def)

text \<open>
  Claim C9, as stated, fails: \<^verbatim>\<open>raise_for_status\<close> runs before the throttle sleep, so when
  the final response is the exhausted 429 the call raises and never sleeps
  \<open>1 / requests_per_second_limit\<close>.
\<close>

theorem request_throttle_counterexample:
  "request (AirtableClient ''app'' ''key'') (const_server 429) ''get'' ''https://x'' no_kwargs () =
     Some (Inl (HTTPError \<lparr>status_code = 429, json_body = None\<rparr>), (),
       [Sent (build_request ''get'' ''https://x'' no_kwargs), Warn429 1 30, Sleep 30,
        Sent (build_request ''get'' ''https://x'' no_kwargs), Warn429 2 45, Sleep 45,
        Sent (build_request ''get'' ''https://x'' no_kwargs), Warn429 3 68, Sleep 68,
        Sent (build_request ''get'' ''https://x'' no_kwargs)]) \<and>
   Sleep (1 / requests_per_second_limit (AirtableClient ''app'' ''key'')) \<notin>
     set (snd (snd (the (request (AirtableClient ''app'' ''key'') (const_server 429)
       ''get'' ''https://x'' no_kwargs ()))))"
proof -
  have "\<forall>k\<le>3. status_code (fst (const_server 429
      (srv_after (const_server 429) (build_request ''get'' ''https://x'' no_kwargs) k ())
      (build_request ''get'' ''https://x'' no_kwargs))) = 429"
    by (simp add: const_server_fst)
  from request_loop_busy [OF this]
  have loop: "request_loop (const_server 429) (build_request ''get'' ''https://x'' no_kwargs) 0 30 () [] =
      Some (\<lparr>status_code = 429, json_body = None\<rparr>, (),
       [Sent (build_request ''get'' ''https://x'' no_kwargs), Warn429 1 30, Sleep 30,
        Sent (build_request ''get'' ''https://x'' no_kwargs), Warn429 2 45, Sleep 45,
        Sent (build_request ''get'' ''https://x'' no_kwargs), Warn429 3 68, Sleep 68,
        Sent (build_request ''get'' ''https://x'' no_kwargs)])"
    by (simp add: const_server_fst)
  show ?thesis
    by (simp add: request_def loop raises_for_status_def AirtableClient_def)
qed

text \<open>
  Claim C9, amended. With a positive \<open>requests_per_second_limit\<close>, whenever \<^verbatim>\<open>request\<close>
  returns a response, that response does not raise for status and the last two events are the
  final send followed by a sleep of exactly \<open>1 / requests_per_second_limit\<close>, whatever the
  retry history; whenever it raises, it raises \<open>HTTPError\<close> for the final response and the
  final send is the last event (no throttle sleep).
\<close>

theorem request_throttle_on_return:
  assumes rps: "0 < requests_per_second_limit c"
    and run: "request c srv method u kw s = Some (res, s', tr)"
  shows "case res of
           Inr response \<Rightarrow> \<not> raises_for_status response \<and>
             (\<exists>tr0. tr = tr0 @ [Sent (build_request method u kw),
                                Sleep (1 / requests_per_second_limit c)])
         | Inl e \<Rightarrow> (\<exists>response. e = HTTPError response \<and> raises_for_status response) \<and>
             (\<exists>tr0. tr = tr0 @ [Sent (build_request method u kw)])"
proof -
  obtain r s1 tr1 where loop:
    "request_loop srv (build_request method u kw) 0 30 s [] = Some (r, s1, tr1)"
    using run by (auto simp: request_def split: option.splits)
  have "\<exists>tr0. tr1 = tr0 @ [Sent (build_request method u kw)]"
    by (rule request_loop_ends_with_send [OF _ loop]) simp
  then obtain tr0 where tr1: "tr1 = tr0 @ [Sent (build_request method u kw)]" ..
  show ?thesis
  proof (cases "raises_for_status r")
    case True
    with run loop tr1 show ?thesis by (auto simp: request_def)
  next
    case False
    with run loop tr1 rps show ?thesis by (auto simp: request_def)
  qed
qed

theorem request_throttle_on_return_witness:
  "request (AirtableClient ''app'' ''key'') (const_server 200) ''get'' ''https://x'' no_kwargs () =
     Some (Inr \<lparr>status_code = 200, json_body = None\<rparr>, (),
           [Sent (build_request ''get'' ''https://x'' no_kwargs), Sleep (1 / 5)]) \<and>
   (\<exists>tr0. [Sent (build_request ''get'' ''https://x'' no_kwargs), Sleep (1 / 5 :: rat)] =
       tr0 @ [Sent (build_request ''get'' ''https://x'' no_kwargs),
              Sleep (1 / requests_per_second_limit (AirtableClient ''app'' ''key''))])"
proof -
  have run: "request (AirtableClient ''app'' ''key'') (const_server 200) ''get'' ''https://x'' no_kwargs () =
     Some (Inr \<lparr>status_code = 200, json_body = None\<rparr>, (),
           [Sent (build_request ''get'' ''https://x'' no_kwargs), Sleep (1 / 5)])"
    by (simp add: request_def request_loop_leave const_server_def raises_for_status_def
        AirtableClient_def)
  have rps: "0 < requests_per_second_limit (AirtableClient ''app'' ''key'')"
    by (simp add: AirtableClient_def)
  from request_throttle_on_return [OF rps run] run show ?thesis by simp
qed
section \<open>Restarting an invalidated scan\<close>


lemma read_loop_clean:
  assumes "scan c srv t s = Some (Inr records, s', tr)"
  shows "read_loop c srv t restarts s = Some (Inr records, s', tr)"
  using assms by (subst read_loop.simps) simp

lemma read_loop_restart:
  assumes "scan c srv t s = Some (Inl AirtableIteratorError, s', tr)" and "restarts \<noteq> 3"
  shows "read_loop c srv t restarts s =
         Option.bind (read_loop c srv t (Suc restarts) s')
           (\<lambda>r. Some (emit (tr @ [WarnRestart (Suc restarts)]) r))"
  using assms by (subst read_loop.simps) simp

lemma read_loop_give_up:
  assumes "scan c srv t s = Some (Inl AirtableIteratorError, s', tr)"
  shows "read_loop c srv t 3 s = Some (Inl AirtableIteratorError, s', tr)"
  using assms by (subst read_loop.simps) simp

lemma state_after_Cons: "state_after s ((s', tr) # rest) = state_after s' rest"
  by (simp add: state_after_def)

lemma read_loop_fail_then_clean:
  assumes "scans_fail c srv t s fs"
    and "restarts + length fs \<le> 3"
    and "scan c srv t (state_after s fs) = Some (Inr records, s', tr)"
  shows "read_loop c srv t restarts s = Some (Inr records, s', restart_trace (Suc restarts) fs @ tr)"
  using assms
proof (induction fs arbitrary: s restarts)
  case Nil
  then show ?case by (simp add: read_loop_clean state_after_def)
next
  case (Cons f fs)
  obtain s1 tr1 where f: "f = (s1, tr1)" by (cases f)
  from Cons.prems f have sc: "scan c srv t s = Some (Inl AirtableIteratorError, s1, tr1)"
    and rest: "scans_fail c srv t s1 fs" and r: "restarts \<noteq> 3" "Suc restarts + length fs \<le> 3"
    and clean: "scan c srv t (state_after s1 fs) = Some (Inr records, s', tr)"
    by (simp_all add: state_after_Cons)
  from Cons.IH [OF rest r(2) clean]
  have "read_loop c srv t (Suc restarts) s1 =
        Some (Inr records, s', restart_trace (Suc (Suc restarts)) fs @ tr)" .
  then show ?case
    by (simp add: read_loop_restart [OF sc r(1)] f emit_def)
qed

lemma read_loop_fail_exhaust:
  assumes "scans_fail c srv t s fs"
    and "restarts + length fs = 4"
    and "restarts \<le> 3"
  shows "read_loop c srv t restarts s =
         Some (Inl AirtableIteratorError, state_after s fs,
               restart_trace (Suc restarts) (butlast fs) @ snd (last fs))"
  using assms
proof (induction fs arbitrary: s restarts)
  case Nil
  then show ?case by simp
next
  case (Cons f fs)
  obtain s1 tr1 where f: "f = (s1, tr1)" by (cases f)
  from Cons.prems f have sc: "scan c srv t s = Some (Inl AirtableIteratorError, s1, tr1)"
    and rest: "scans_fail c srv t s1 fs"
    by simp_all
  show ?case
  proof (cases "fs = []")
    case True
    with Cons.prems have "restarts = 3" by simp
    with True f sc show ?thesis
      by (simp add: read_loop_give_up state_after_def)
  next
    case False
    with Cons.prems have r: "restarts \<noteq> 3" "Suc restarts + length fs = 4" "Suc restarts \<le> 3"
      by (cases fs; simp)+
    from Cons.IH [OF rest r(2) r(3)]
    have "read_loop c srv t (Suc restarts) s1 =
          Some (Inl AirtableIteratorError, state_after s1 fs,
                restart_trace (Suc (Suc restarts)) (butlast fs) @ snd (last fs))" .
    with False show ?thesis
      by (simp add: read_loop_restart [OF sc r(1)] f emit_def state_after_Cons)
  qed
qed


lemma request_script:
  "status_code r \<noteq> 429 \<Longrightarrow>
   request c script_server m u kw (r # rest) =
     (if raises_for_status r then Some (Inl (HTTPError r), rest, [Sent (build_request m u kw)])
      else if requests_per_second_limit c = 0
        then Some (Inl ZeroDivisionError, rest, [Sent (build_request m u kw)])
      else if 1 / requests_per_second_limit c < 0
        then Some (Inl ValueError, rest, [Sent (build_request m u kw)])
      else Some (Inr r, rest,
             [Sent (build_request m u kw), Sleep (1 / requests_per_second_limit c)]))"
  by (simp add: request_def request_loop_leave script_server_def)

lemma scan_script_gone:
  "scan c script_server t (iterator_gone # rest) =
     Some (Inl AirtableIteratorError, rest,
           [Sent (build_request ''get'' (table_url c t) no_kwargs)])"
  unfolding scan_def
  by (subst drain.simps)
    (simp add: iter_chunks_step_def request_script iterator_gone_def raises_for_status_def
      handle_response_def is_iterator_error_def offset_kwargs_def)

lemma scan_script_two_pages:
  "scan (AirtableClient b k) script_server t
     [page [JStr ''a'', JStr ''b''] (Some (JStr ''o1'')), page [JStr ''c''] None] =
   Some (Inr [JStr ''a'', JStr ''b'', JStr ''c''], [],
     [Sent (build_request ''get'' (table_url (AirtableClient b k) t) no_kwargs), Sleep (1 / 5),
      Sent (build_request ''get'' (table_url (AirtableClient b k) t)
              (no_kwargs\<lparr>kw_offset := Some (JStr ''o1'')\<rparr>)), Sleep (1 / 5)])"
  unfolding scan_def
  apply (subst drain.simps)
  apply (simp add: iter_chunks_step_def request_script page_def raises_for_status_def
      handle_response_def AirtableClient_def offset_kwargs_def)
  apply (subst drain.simps)
  apply (simp add: iter_chunks_step_def request_script page_def raises_for_status_def
      handle_response_def AirtableClient_def emit_def offset_kwargs_def)
  done


text \<open>
  Claim C3, as stated, fails: after exactly three consecutive \<open>AirtableIteratorError\<close>
  restarts a clean scan still makes \<^verbatim>\<open>read\<close> return the records; it does not raise.
\<close>

theorem read_three_restarts_counterexample:
  "read (AirtableClient ''app'' ''key'') script_server ''t''
     [iterator_gone, iterator_gone, iterator_gone,
      page [JStr ''a'', JStr ''b''] (Some (JStr ''o1'')), page [JStr ''c''] None] =
   Some (Inr [JStr ''a'', JStr ''b'', JStr ''c''], [],
     [Sent (build_request ''get'' (table_url (AirtableClient ''app'' ''key'') ''t'') no_kwargs),
      WarnRestart 1,
      Sent (build_request ''get'' (table_url (AirtableClient ''app'' ''key'') ''t'') no_kwargs),
      WarnRestart 2,
      Sent (build_request ''get'' (table_url (AirtableClient ''app'' ''key'') ''t'') no_kwargs),
      WarnRestart 3,
      Sent (build_request ''get'' (table_url (AirtableClient ''app'' ''key'') ''t'') no_kwargs),
      Sleep (1 / 5),
      Sent (build_request ''get'' (table_url (AirtableClient ''app'' ''key'') ''t'')
              (no_kwargs\<lparr>kw_offset := Some (JStr ''o1'')\<rparr>)),
      Sleep (1 / 5)])"
proof -
  let ?c = "AirtableClient ''app'' ''key''"
  let ?pages = "[page [JStr ''a'', JStr ''b''] (Some (JStr ''o1'')), page [JStr ''c''] None]"
  let ?get = "[Sent (build_request ''get'' (table_url ?c ''t'') no_kwargs)]"
  let ?fs = "[([iterator_gone, iterator_gone] @ ?pages, ?get),
              ([iterator_gone] @ ?pages, ?get), (?pages, ?get)]"
  have fails: "scans_fail ?c script_server ''t''
      ([iterator_gone, iterator_gone, iterator_gone] @ ?pages) ?fs"
    by (simp add: scan_script_gone)
  have clean: "scan ?c script_server ''t''
      (state_after ([iterator_gone, iterator_gone, iterator_gone] @ ?pages) ?fs) =
      Some (Inr [JStr ''a'', JStr ''b'', JStr ''c''], [],
        [Sent (build_request ''get'' (table_url ?c ''t'') no_kwargs), Sleep (1 / 5),
         Sent (build_request ''get'' (table_url ?c ''t'')
                 (no_kwargs\<lparr>kw_offset := Some (JStr ''o1'')\<rparr>)), Sleep (1 / 5)])"
    by (simp add: state_after_def scan_script_two_pages)
  from read_loop_fail_then_clean [OF fails _ clean, of 0] show ?thesis
    by (simp add: read_def numeral_2_eq_2 numeral_3_eq_3)
qed

text \<open>
  Claim C3, amended. After any number up to three of consecutive scans that end in
  \<open>AirtableIteratorError\<close>, each restarted from scratch, a clean full scan makes \<^verbatim>\<open>read\<close> return
  exactly the records of that clean scan, in order; a fourth consecutive
  \<open>AirtableIteratorError\<close> (after three restarts) is raised.
\<close>

theorem read_restart_budget:
  assumes "scans_fail c srv t s fs"
  shows "(length fs = 4 \<longrightarrow>
            read c srv t s =
              Some (Inl AirtableIteratorError, state_after s fs,
                    restart_trace 1 (butlast fs) @ snd (last fs))) \<and>
         (length fs \<le> 3 \<longrightarrow>
            (\<forall>records s' tr.
               scan c srv t (state_after s fs) = Some (Inr records, s', tr) \<longrightarrow>
               read c srv t s = Some (Inr records, s', restart_trace 1 fs @ tr)))"
  using assms
  by (auto simp: read_def dest: read_loop_fail_exhaust [where restarts = 0]
      read_loop_fail_then_clean [where restarts = 0])

theorem read_restart_budget_witness:
  "read (AirtableClient ''app'' ''key'') script_server ''t''
     [iterator_gone, iterator_gone, iterator_gone, iterator_gone] =
   Some (Inl AirtableIteratorError, [],
     [Sent (build_request ''get'' (table_url (AirtableClient ''app'' ''key'') ''t'') no_kwargs),
      WarnRestart 1,
      Sent (build_request ''get'' (table_url (AirtableClient ''app'' ''key'') ''t'') no_kwargs),
      WarnRestart 2,
      Sent (build_request ''get'' (table_url (AirtableClient ''app'' ''key'') ''t'') no_kwargs),
      WarnRestart 3,
      Sent (build_request ''get'' (table_url (AirtableClient ''app'' ''key'') ''t'') no_kwargs)]) \<and>
   read (AirtableClient ''app'' ''key'') script_server ''t''
     [iterator_gone, iterator_gone,
      page [JStr ''a'', JStr ''b''] (Some (JStr ''o1'')), page [JStr ''c''] None] =
   Some (Inr [JStr ''a'', JStr ''b'', JStr ''c''], [],
     [Sent (build_request ''get'' (table_url (AirtableClient ''app'' ''key'') ''t'') no_kwargs),
      WarnRestart 1,
      Sent (build_request ''get'' (table_url (AirtableClient ''app'' ''key'') ''t'') no_kwargs),
      WarnRestart 2,
      Sent (build_request ''get'' (table_url (AirtableClient ''app'' ''key'') ''t'') no_kwargs),
      Sleep (1 / 5),
      Sent (build_request ''get'' (table_url (AirtableClient ''app'' ''key'') ''t'')
              (no_kwargs\<lparr>kw_offset := Some (JStr ''o1'')\<rparr>)),
      Sleep (1 / 5)])"
proof -
  let ?c = "AirtableClient ''app'' ''key''"
  let ?pages = "[page [JStr ''a'', JStr ''b''] (Some (JStr ''o1'')), page [JStr ''c''] None]"
  let ?get = "[Sent (build_request ''get'' (table_url ?c ''t'') no_kwargs)]"
  let ?fs4 = "[([iterator_gone, iterator_gone, iterator_gone], ?get),
               ([iterator_gone, iterator_gone], ?get), ([iterator_gone], ?get), ([], ?get)]"
  let ?fs2 = "[([iterator_gone] @ ?pages, ?get), (?pages, ?get)]"
  have fails4: "scans_fail ?c script_server ''t''
      [iterator_gone, iterator_gone, iterator_gone, iterator_gone] ?fs4"
    by (simp add: scan_script_gone)
  have fails2: "scans_fail ?c script_server ''t'' ([iterator_gone, iterator_gone] @ ?pages) ?fs2"
    by (simp add: scan_script_gone)
  have clean: "scan ?c script_server ''t''
      (state_after ([iterator_gone, iterator_gone] @ ?pages) ?fs2) =
      Some (Inr [JStr ''a'', JStr ''b'', JStr ''c''], [],
        [Sent (build_request ''get'' (table_url ?c ''t'') no_kwargs), Sleep (1 / 5),
         Sent (build_request ''get'' (table_url ?c ''t'')
                 (no_kwargs\<lparr>kw_offset := Some (JStr ''o1'')\<rparr>)), Sleep (1 / 5)])"
    by (simp add: state_after_def scan_script_two_pages)
  from read_restart_budget [OF fails4] read_restart_budget [OF fails2] clean show ?thesis
    by (simp add: state_after_def numeral_2_eq_2 numeral_3_eq_3)
qed

text \<open>
  Claim C4. \<^verbatim>\<open>iter_chunks\<close> should turn exactly the 422 responses that name
  LIST_RECORDS_ITERATOR_NOT_AVAILABLE into \<open>AirtableIteratorError\<close> and re-raise every other
  error response as the \<open>HTTPError\<close>. At a 422 response whose JSON payload has a null
  \<^verbatim>\<open>error\<close> entry the membership test of \<^verbatim>\<open>is_iterator_error\<close> itself raises, and the scan
  step ends in \<open>TypeError\<close>: neither of the two.
\<close>

theorem iter_chunks_step_null_error_payload:
  "iter_chunks_step (AirtableClient ''app'' ''key'') script_server ''t'' None
     [\<lparr>status_code = 422, json_body = Some (JObj [(''error'', JNull)])\<rparr>] =
   Some (Raised TypeError, [],
     [Sent (build_request ''get'' (table_url (AirtableClient ''app'' ''key'') ''t'') no_kwargs)])"
  by (simp add: iter_chunks_step_def request_script raises_for_status_def handle_response_def
      is_iterator_error_def offset_kwargs_def)


text \<open>
  Beside the claim: an \<^verbatim>\<open>error\<close> entry that is a dict is tested for a key of that name, so a
  payload that names the condition as the \<^verbatim>\<open>type\<close> of the error is not recognised; and a
  characterisation of the responses that are recognised.
\<close>

lemma is_iterator_error_nested_type:
  "is_iterator_error
     \<lparr>status_code = 422,
      json_body = Some (JObj [(''error'',
        JObj [(''type'', JStr ''LIST_RECORDS_ITERATOR_NOT_AVAILABLE'')])])\<rparr> = Inr False"
  by (simp add: is_iterator_error_def)

lemma is_iterator_error_True_iff:
  "is_iterator_error r = Inr True \<longleftrightarrow>
     status_code r = 422 \<and>
     (\<exists>kvs. json_body r = Some (JObj kvs) \<and>
        py_in ''LIST_RECORDS_ITERATOR_NOT_AVAILABLE''
          (case map_of kvs ''error'' of None \<Rightarrow> JStr [] | Some v \<Rightarrow> v) = Inr True)"
proof (cases "json_body r")
  case None
  then show ?thesis by (simp add: is_iterator_error_def)
next
  case (Some data)
  then show ?thesis
    by (cases data) (auto simp: is_iterator_error_def split: sum.splits bool.splits)
qed

lemma py_in_error: "py_in needle v = Inl e \<Longrightarrow> e = TypeError"
  by (cases v) simp_all

lemma json_get_error: "json_get data k d = Inl e \<Longrightarrow> e = AttributeError"
  by (cases data) simp_all

lemma is_iterator_error_error:
  "is_iterator_error r = Inl e \<Longrightarrow> e = TypeError \<or> e = AttributeError"
  by (auto simp: is_iterator_error_def split: if_splits option.splits sum.splits bool.splits
      dest: py_in_error json_get_error)

lemma handle_response_iterator_error_iff:
  "handle_response (Inl (HTTPError r)) = Raised AirtableIteratorError \<longleftrightarrow>
     is_iterator_error r = Inr True"
  by (auto simp: handle_response_def split: sum.splits bool.splits
      dest: is_iterator_error_error)

section \<open>Chunked writes\<close>














lemma sent_append [simp]: "sent (tr @ tr') = sent tr @ sent tr'"
  by (induction tr rule: sent.induct) simp_all





lemma has_id_lookup: "has_id h r \<Longrightarrow> \<exists>i. map_of (h r) ''id'' = Some i"
  by (auto simp: has_id_def dest: weak_map_of_SomeI)

lemma not_has_id_delete [simp]: "\<not> has_id (h(r := AList.delete ''id'' d)) r"
  by (simp add: has_id_def delete_keys)














text \<open>
  The records of the two theorems above are distinct objects. A list that holds the same dict
  object twice fails at its second occurrence, the id having been popped at the first.
\<close>

lemma pop_ids_same_object:
  "has_id h r \<Longrightarrow> fst (pop_ids [r, r] h) = Inl (KeyError ''id'')"
proof -
  assume "has_id h r"
  then obtain i where "map_of (h r) ''id'' = Some i" using has_id_lookup by blast
  moreover have "map_of (AList.delete ''id'' (h r)) ''id'' = None"
    by (simp add: delete_conv')
  ultimately show ?thesis by simp
qed

section \<open>Shaping and loading\<close>


lemmas rename_eval =
  rename_column_def lower_def lower_char_def ascii_upper_def ascii_lower_def column_chars_def

lemma rename_column_id: "rename_column ''id'' = ''id''"
  by (simp add: rename_eval)

lemma rename_column_createdTime: "rename_column ''createdTime'' = ''createdtime''"
  by (simp add: rename_eval)

lemma rename_column_examples:
  "rename_column ''Created Time!!'' = ''created_time_''"
  "rename_column ''A--B'' = ''a_b''"
  by (simp_all add: rename_eval)

text \<open>
  Claim C7, as stated, fails: \<^verbatim>\<open>df.rename(columns=rename_column)\<close> renames every column
  before the frame is returned, so the columns are not the FieldInfo keys and \<^verbatim>\<open>createdTime\<close>
  themselves.
\<close>

theorem result_to_df_columns_counterexample:
  "result_to_df [] [(''First Name'', ''singleLineText'')] =
     Inr \<lparr>columns = [''id'', ''first_name'', ''createdtime''], rows = []\<rparr> \<and>
   [''id'', ''first_name'', ''createdtime''] \<noteq>
     [''id''] @ map fst [(''First Name'', ''singleLineText'')] @ [''createdTime'']"
  by (simp add: result_to_df_def rename_eval)

text \<open>
  Claim C7, amended. For every FieldInfo, \<^verbatim>\<open>result_to_df\<close> of zero records is an empty frame
  whose columns are, in this order, \<^verbatim>\<open>id\<close>, the canonical name (\<^verbatim>\<open>rename_column\<close>) of every
  FieldInfo key in its defined order, then \<^verbatim>\<open>createdtime\<close>; its column set is
  \<open>{id} \<union> rename_column ` keys \<union> {createdtime}\<close>.
\<close>

theorem result_to_df_empty:
  "result_to_df [] field_info =
     Inr \<lparr>columns = [''id''] @ map rename_column (map fst field_info) @ [''createdtime''],
          rows = []\<rparr> \<and>
   (\<forall>df. result_to_df [] field_info = Inr df \<longrightarrow>
      set (columns df) =
        {''id''} \<union> rename_column ` set (map fst field_info) \<union> {''createdtime''})"
  by (auto simp: result_to_df_def rename_column_id rename_column_createdTime)

theorem result_to_df_empty_witness:
  "result_to_df [] [(''First Name'', ''singleLineText''), (''Tags'', ''multipleSelects'')] =
     Inr \<lparr>columns = [''id'', ''first_name'', ''tags'', ''createdtime''], rows = []\<rparr> \<and>
   set (columns \<lparr>columns = [''id'', ''first_name'', ''tags'', ''createdtime''], rows = []\<rparr>) =
     {''id'', ''first_name'', ''tags'', ''createdtime''}"
  using result_to_df_empty [of "[(''First Name'', ''singleLineText''), (''Tags'', ''multipleSelects'')]"]
  by (simp add: rename_eval)


lemma result_to_df_columns:
  "result_to_df chunk field_info = Inr df \<Longrightarrow> columns df = shaped_columns field_info"
  by (auto simp: result_to_df_def Let_def shaped_columns_def rename_column_id
      rename_column_createdTime split: sum.splits)

lemma frame_eq: "(t :: frame) = \<lparr>columns = columns t, rows = rows t\<rparr>"
  by simp

lemma append_chunks_result:
  assumes "append_chunks wh chunks field_info schema tmp count = (Inr count', wh')"
    and "tables wh (qualified_name schema tmp) = None \<or>
         (\<exists>t. tables wh (qualified_name schema tmp) = Some t \<and> columns t = shaped_columns field_info)"
  shows "\<exists>dfs.
     map (\<lambda>chunk. result_to_df chunk field_info) (yielded chunks) = map Inr dfs \<and>
     count' = count + int (length (concat (map rows dfs))) \<and>
     (\<forall>k. k \<noteq> qualified_name schema tmp \<longrightarrow> tables wh' k = tables wh k) \<and>
     tables wh' (qualified_name schema tmp) =
       (if yielded chunks = [] then tables wh (qualified_name schema tmp)
        else Some \<lparr>columns = shaped_columns field_info,
                   rows = (case tables wh (qualified_name schema tmp) of
                             None \<Rightarrow> [] | Some t \<Rightarrow> rows t) @ concat (map rows dfs)\<rparr>)"
  using assms
proof (induction chunks arbitrary: wh count)
  case Done
  then show ?case by simp
next
  case (Raise e)
  then show ?case by simp
next
  case (Yield chunk chunks)
  let ?K = "qualified_name schema tmp"
  from Yield.prems(1) obtain df where df: "result_to_df chunk field_info = Inr df"
    by (auto split: sum.splits)
  then have cols: "columns df = shaped_columns field_info" by (rule result_to_df_columns)
  from Yield.prems(1) df obtain wh1 where
    m: "materialize wh df schema tmp Append = (None, wh1)"
    and rest: "append_chunks wh1 chunks field_info schema tmp (count + int (length (rows df))) =
        (Inr count', wh')"
    by (auto split: prod.splits option.splits)
  have wh1_other: "\<forall>k. k \<noteq> ?K \<longrightarrow> tables wh1 k = tables wh k"
    using m by (auto simp: materialize_def Let_def split: option.splits if_splits)
  have wh1_K: "tables wh1 ?K =
      Some \<lparr>columns = shaped_columns field_info,
            rows = (case tables wh ?K of None \<Rightarrow> [] | Some t \<Rightarrow> rows t) @ rows df\<rparr>"
    using m cols Yield.prems(2)
    by (auto simp: materialize_def Let_def split: option.splits if_splits)
  then have inv: "tables wh1 ?K = None \<or>
      (\<exists>t. tables wh1 ?K = Some t \<and> columns t = shaped_columns field_info)"
    by simp
  from Yield.IH [OF rest inv] obtain dfs where
    d: "map (\<lambda>chunk. result_to_df chunk field_info) (yielded chunks) = map Inr dfs"
    and c: "count' = count + int (length (rows df)) + int (length (concat (map rows dfs)))"
    and o: "\<forall>k. k \<noteq> ?K \<longrightarrow> tables wh' k = tables wh1 k"
    and k: "tables wh' ?K =
       (if yielded chunks = [] then tables wh1 ?K
        else Some \<lparr>columns = shaped_columns field_info,
                   rows = (case tables wh1 ?K of None \<Rightarrow> [] | Some t \<Rightarrow> rows t) @
                          concat (map rows dfs)\<rparr>)"
    by blast
  have nil: "concat (map rows dfs) = []" if "yielded chunks = []"
    using d that by simp
  show ?case
  proof (intro exI [of _ "df # dfs"] conjI)
    show "map (\<lambda>chunk. result_to_df chunk field_info) (yielded (Yield chunk chunks)) =
        map Inr (df # dfs)"
      using df d by simp
    show "count' = count + int (length (concat (map rows (df # dfs))))"
      using c by simp
    show "\<forall>k. k \<noteq> ?K \<longrightarrow> tables wh' k = tables wh k"
      using o wh1_other by simp
    show "tables wh' ?K =
       (if yielded (Yield chunk chunks) = [] then tables wh ?K
        else Some \<lparr>columns = shaped_columns field_info,
                   rows = (case tables wh ?K of None \<Rightarrow> [] | Some t \<Rightarrow> rows t) @
                          concat (map rows (df # dfs))\<rparr>)"
      using k wh1_K nil by (cases "yielded chunks = []") simp_all
  qed
qed

lemma temporary_name_differs:
  "qualified_name schema (temporary_name table) \<noteq> qualified_name schema table"
  by (simp add: qualified_name_def temporary_name_def)

lemma create_empty_result:
  assumes "create_empty wh field_info schema tmp = (None, wh')"
  shows "tables wh (qualified_name schema tmp) = None \<and>
         tables wh' (qualified_name schema tmp) =
           Some \<lparr>columns = shaped_columns field_info, rows = []\<rparr> \<and>
         (\<forall>k. k \<noteq> qualified_name schema tmp \<longrightarrow> tables wh' k = tables wh k)"
proof -
  obtain df where df: "result_to_df [] field_info = Inr df"
    by (simp add: result_to_df_def)
  then have cols: "columns df = shaped_columns field_info" by (rule result_to_df_columns)
  from df have "rows df = []" by (auto simp: result_to_df_def)
  with assms df cols show ?thesis
    by (auto simp: create_empty_def materialize_def delete_from_def Let_def
        split: option.splits prod.splits sum.splits if_splits if_exists.splits)
qed

lemma cutover_result:
  assumes "cutover wh schema table tmp = (None, wh')"
    and "qualified_name schema tmp \<noteq> qualified_name schema table"
    and "tables wh (qualified_name schema tmp) = Some t"
  shows "tables wh' (qualified_name schema table) = Some t \<and>
         tables wh' (qualified_name schema tmp) = None \<and>
         (\<forall>k. k \<noteq> qualified_name schema table \<longrightarrow> k \<noteq> qualified_name schema tmp \<longrightarrow>
              tables wh' k = tables wh k)"
  using assms
  by (auto simp: cutover_def table_exists_def swap_with_def drop_table_def rename_to_def
      split: option.splits prod.splits sum.splits if_splits)

text \<open>
  Claim C1. Whenever \<^verbatim>\<open>_load_chunks\<close> returns, the chunk stream has ended without raising,
  every chunk was shaped into a frame, and the warehouse holds under the final destination
  name one table with the shaped columns and exactly the rows of those frames in order
  (whatever was there before), no table under \<^verbatim>\<open><table>__loader_tmp\<close>, and every other table
  as before; the returned count is the number of rows loaded.
\<close>

theorem load_chunks_cutover:
  assumes "load_chunks wh chunks field_info destination = (Inr count, wh')"
  shows "\<exists>schema table dfs.
     target destination = Inr (schema, table) \<and>
     map (\<lambda>chunk. result_to_df chunk field_info) (yielded chunks) = map Inr dfs \<and>
     tables wh' (qualified_name schema table) =
       Some \<lparr>columns = shaped_columns field_info, rows = concat (map rows dfs)\<rparr> \<and>
     tables wh' (qualified_name schema (temporary_name table)) = None \<and>
     (\<forall>k. k \<noteq> qualified_name schema table \<longrightarrow>
          k \<noteq> qualified_name schema (temporary_name table) \<longrightarrow> tables wh' k = tables wh k) \<and>
     count = int (length (concat (map rows dfs)))"
proof -
  from assms obtain schema table where t: "target destination = Inr (schema, table)"
    by (auto simp: load_chunks_def split: sum.splits)
  let ?tmp = "temporary_name table"
  let ?K = "qualified_name schema ?tmp"
  let ?F = "qualified_name schema table"
  let ?wh0 = "drop_table_if_exists ?K wh"
  from assms t obtain wh1 wh2 where
    a: "append_chunks ?wh0 chunks field_info schema ?tmp 0 = (Inr count, wh1)"
    and e: "(if count = 0 then create_empty wh1 field_info schema ?tmp else (None, wh1)) =
        (None, wh2)"
    and c: "cutover wh2 schema table ?tmp = (None, wh')"
    by (auto simp: load_chunks_def Let_def split: sum.splits prod.splits option.splits)
  have wh0: "tables ?wh0 ?K = None" "\<forall>k. k \<noteq> ?K \<longrightarrow> tables ?wh0 k = tables wh k"
    by (simp_all add: drop_table_if_exists_def)
  from append_chunks_result [OF a] wh0(1) obtain dfs where
    d: "map (\<lambda>chunk. result_to_df chunk field_info) (yielded chunks) = map Inr dfs"
    and n: "count = int (length (concat (map rows dfs)))"
    and o1: "\<forall>k. k \<noteq> ?K \<longrightarrow> tables wh1 k = tables ?wh0 k"
    and k1: "tables wh1 ?K =
       (if yielded chunks = [] then None
        else Some \<lparr>columns = shaped_columns field_info, rows = concat (map rows dfs)\<rparr>)"
    by auto
  have wh2: "tables wh2 ?K =
      Some \<lparr>columns = shaped_columns field_info, rows = concat (map rows dfs)\<rparr> \<and>
      (\<forall>k. k \<noteq> ?K \<longrightarrow> tables wh2 k = tables wh1 k)"
  proof (cases "count = 0")
    case True
    with e have ce: "create_empty wh1 field_info schema ?tmp = (None, wh2)" by simp
    from True n have "concat (map rows dfs) = []" by simp
    with create_empty_result [OF ce] show ?thesis by simp
  next
    case False
    with e have same: "wh2 = wh1" by simp
    from False n d have "yielded chunks \<noteq> []" by auto
    with k1 same show ?thesis by simp
  qed
  from cutover_result [OF c temporary_name_differs] wh2
  have "tables wh' ?F =
      Some \<lparr>columns = shaped_columns field_info, rows = concat (map rows dfs)\<rparr>"
    and "tables wh' ?K = None"
    and "\<forall>k. k \<noteq> ?F \<longrightarrow> k \<noteq> ?K \<longrightarrow> tables wh' k = tables wh2 k"
    by blast+
  with t d n wh2 o1 wh0(2) show ?thesis
    by (intro exI [of _ schema] exI [of _ table] exI [of _ dfs]) simp
qed


lemmas load_eval =
  load_chunks_def target_def parse_table_name_def qualified_name_def temporary_name_def
  drop_table_if_exists_def result_to_df_def process_record_def dict_update_def
  jsonify_fields_def jsonify_column_def jsonified_types_def materialize_def create_empty_def
  delete_from_def cutover_def table_exists_def swap_with_def drop_table_def rename_to_def
  rename_eval Let_def

theorem load_chunks_cutover_witness:
  "fst (load_chunks example_warehouse example_chunks example_field_info ''db.sch.people'') = Inr 2 \<and>
   tables (snd (load_chunks example_warehouse example_chunks example_field_info ''db.sch.people''))
       ''db.sch.people'' =
     Some \<lparr>columns = [''id'', ''name'', ''createdtime''],
           rows = [[Val (JStr ''rec1''), Val (JStr ''Ann''), Val (JStr ''2020'')],
                   [Val (JStr ''rec2''), Missing, Val (JStr ''2021'')]]\<rparr> \<and>
   tables (snd (load_chunks example_warehouse example_chunks example_field_info ''db.sch.people''))
       ''db.sch.people__loader_tmp'' = None \<and>
   fst (load_chunks \<lparr>schemas = {}, tables = Map.empty\<rparr> Done example_field_info ''sch.people'') =
     Inr 0 \<and>
   tables (snd (load_chunks \<lparr>schemas = {}, tables = Map.empty\<rparr> Done example_field_info
       ''sch.people'')) ''sch.people'' =
     Some \<lparr>columns = [''id'', ''name'', ''createdtime''], rows = []\<rparr> \<and>
   tables (snd (load_chunks \<lparr>schemas = {}, tables = Map.empty\<rparr> Done example_field_info
       ''sch.people'')) ''sch.people__loader_tmp'' = None"
proof -
  let ?run = "load_chunks example_warehouse example_chunks example_field_info ''db.sch.people''"
  let ?fresh = "load_chunks \<lparr>schemas = {}, tables = Map.empty\<rparr> Done example_field_info ''sch.people''"
  have f: "fst ?run = Inr 2"
    by (simp add: load_eval example_warehouse_def example_chunks_def example_field_info_def)
  then have r: "?run = (Inr 2, snd ?run)" by (metis prod.collapse)
  have f0: "fst ?fresh = Inr 0"
    by (simp add: load_eval example_field_info_def)
  then have r0: "?fresh = (Inr 0, snd ?fresh)" by (metis prod.collapse)
  have cols: "shaped_columns example_field_info = [''id'', ''name'', ''createdtime'']"
    by (simp add: shaped_columns_def example_field_info_def rename_eval)
  have t: "target ''db.sch.people'' = Inr (''db.sch'', ''people'')"
    "target ''sch.people'' = Inr (''sch'', ''people'')"
    by (simp_all add: target_def parse_table_name_def)
  have q: "qualified_name ''db.sch'' ''people'' = ''db.sch.people''"
    "qualified_name ''db.sch'' (temporary_name ''people'') = ''db.sch.people__loader_tmp''"
    "qualified_name ''sch'' ''people'' = ''sch.people''"
    "qualified_name ''sch'' (temporary_name ''people'') = ''sch.people__loader_tmp''"
    by (simp_all add: qualified_name_def temporary_name_def)
  have shaped: "map (\<lambda>chunk. result_to_df chunk example_field_info) (yielded example_chunks) =
      map Inr [\<lparr>columns = [''id'', ''name'', ''createdtime''],
                 rows = [[Val (JStr ''rec1''), Val (JStr ''Ann''), Val (JStr ''2020'')]]\<rparr>,
               \<lparr>columns = [''id'', ''name'', ''createdtime''],
                 rows = [[Val (JStr ''rec2''), Missing, Val (JStr ''2021'')]]\<rparr>]"
    by (simp add: load_eval example_chunks_def example_field_info_def)
  from load_chunks_cutover [OF r] obtain dfs where
    d: "map (\<lambda>chunk. result_to_df chunk example_field_info) (yielded example_chunks) = map Inr dfs"
    and final: "tables (snd ?run) ''db.sch.people'' =
        Some \<lparr>columns = shaped_columns example_field_info, rows = concat (map rows dfs)\<rparr>"
    and tmp: "tables (snd ?run) ''db.sch.people__loader_tmp'' = None"
    by (auto simp: t q)
  have "map (Inr :: frame \<Rightarrow> error + frame) dfs = map Inr [\<lparr>columns = [''id'', ''name'', ''createdtime''],
                 rows = [[Val (JStr ''rec1''), Val (JStr ''Ann''), Val (JStr ''2020'')]]\<rparr>,
               \<lparr>columns = [''id'', ''name'', ''createdtime''],
                 rows = [[Val (JStr ''rec2''), Missing, Val (JStr ''2021'')]]\<rparr>]"
    using d shaped by (simp only:)
  then have "dfs = [\<lparr>columns = [''id'', ''name'', ''createdtime''],
                 rows = [[Val (JStr ''rec1''), Val (JStr ''Ann''), Val (JStr ''2020'')]]\<rparr>,
               \<lparr>columns = [''id'', ''name'', ''createdtime''],
                 rows = [[Val (JStr ''rec2''), Missing, Val (JStr ''2021'')]]\<rparr>]"
    by (rule map_injective) (rule inj_Inr)
  with final cols have final': "tables (snd ?run) ''db.sch.people'' =
     Some \<lparr>columns = [''id'', ''name'', ''createdtime''],
           rows = [[Val (JStr ''rec1''), Val (JStr ''Ann''), Val (JStr ''2020'')],
                   [Val (JStr ''rec2''), Missing, Val (JStr ''2021'')]]\<rparr>"
    by simp
  from load_chunks_cutover [OF r0] obtain dfs0 where
    d0: "map (\<lambda>chunk. result_to_df chunk example_field_info) (yielded Done) = map Inr dfs0"
    and final0: "tables (snd ?fresh) ''sch.people'' =
        Some \<lparr>columns = shaped_columns example_field_info, rows = concat (map rows dfs0)\<rparr>"
    and tmp0: "tables (snd ?fresh) ''sch.people__loader_tmp'' = None"
    by (auto simp: t q)
  from d0 have "dfs0 = []" by simp
  with final0 cols have final0': "tables (snd ?fresh) ''sch.people'' =
     Some \<lparr>columns = [''id'', ''name'', ''createdtime''], rows = []\<rparr>"
    by simp
  from f final' tmp f0 final0' tmp0 show ?thesis by (simp only: simp_thms)
qed

text \<open>
  Not every load returns: a stream whose only chunk is empty creates the temporary table
  with no row, and the step for an empty load then finds it (\<^verbatim>\<open>if_exists="fail"\<close>).
\<close>

lemma load_chunks_empty_chunk:
  "fst (load_chunks \<lparr>schemas = {}, tables = Map.empty\<rparr> (Yield [] Done) example_field_info
     ''sch.people'') = Inl ValueError"
  by (simp add: load_eval example_field_info_def)

end
